theory Spec2Isabelle
  imports Complex_Main
begin

section \<open>Numbers of the JavaScript runtime\<close>

text \<open>
  The components compute with JavaScript numbers. Finite arithmetic is taken exactly
  (a finite number is a \<^typ>\<open>real\<close>, so rounding is not modelled), while the special
  results that a division by zero produces are kept: a quotient with divisor zero is
  \<open>Infinity\<close>, \<open>-Infinity\<close> or \<open>NaN\<close>, never an exception. A zero is read as \<open>+0\<close>.
\<close>

datatype jsnum = Fin real | PInf | NInf | NaN

definition inf_of_sign :: "real \<Rightarrow> jsnum" where
  "inf_of_sign s = (if 0 < s then PInf else if s < 0 then NInf else NaN)"

text \<open>The operator \<open>/\<close>.\<close>

fun js_div :: "jsnum \<Rightarrow> jsnum \<Rightarrow> jsnum" where
  "js_div (Fin a) (Fin b) = (if b \<noteq> 0 then Fin (a / b) else inf_of_sign a)"
| "js_div NaN _ = NaN"
| "js_div _ NaN = NaN"
| "js_div (Fin a) PInf = Fin 0"
| "js_div (Fin a) NInf = Fin 0"
| "js_div PInf (Fin b) = (if 0 \<le> b then PInf else NInf)"
| "js_div NInf (Fin b) = (if 0 \<le> b then NInf else PInf)"
| "js_div PInf PInf = NaN"
| "js_div PInf NInf = NaN"
| "js_div NInf PInf = NaN"
| "js_div NInf NInf = NaN"

text \<open>The operators \<open>*\<close> and \<open>-\<close>.\<close>

fun js_mul :: "jsnum \<Rightarrow> jsnum \<Rightarrow> jsnum" where
  "js_mul (Fin a) (Fin b) = Fin (a * b)"
| "js_mul NaN _ = NaN"
| "js_mul _ NaN = NaN"
| "js_mul (Fin a) PInf = inf_of_sign a"
| "js_mul (Fin a) NInf = inf_of_sign (- a)"
| "js_mul PInf (Fin b) = inf_of_sign b"
| "js_mul NInf (Fin b) = inf_of_sign (- b)"
| "js_mul PInf PInf = PInf"
| "js_mul PInf NInf = NInf"
| "js_mul NInf PInf = NInf"
| "js_mul NInf NInf = PInf"

fun js_sub :: "jsnum \<Rightarrow> jsnum \<Rightarrow> jsnum" where
  "js_sub (Fin a) (Fin b) = Fin (a - b)"
| "js_sub NaN _ = NaN"
| "js_sub _ NaN = NaN"
| "js_sub PInf PInf = NaN"
| "js_sub NInf NInf = NaN"
| "js_sub PInf _ = PInf"
| "js_sub NInf _ = NInf"
| "js_sub (Fin a) PInf = NInf"
| "js_sub (Fin a) NInf = PInf"

text \<open>\<open>Math.max\<close> and \<open>Math.min\<close> of two arguments: \<open>NaN\<close> as soon as one argument is.\<close>

fun math_max :: "jsnum \<Rightarrow> jsnum \<Rightarrow> jsnum" where
  "math_max NaN _ = NaN"
| "math_max _ NaN = NaN"
| "math_max PInf _ = PInf"
| "math_max _ PInf = PInf"
| "math_max NInf b = b"
| "math_max a NInf = a"
| "math_max (Fin a) (Fin b) = Fin (max a b)"

fun math_min :: "jsnum \<Rightarrow> jsnum \<Rightarrow> jsnum" where
  "math_min NaN _ = NaN"
| "math_min _ NaN = NaN"
| "math_min NInf _ = NInf"
| "math_min _ NInf = NInf"
| "math_min PInf b = b"
| "math_min a PInf = a"
| "math_min (Fin a) (Fin b) = Fin (min a b)"

text \<open>\<open>Math.min(...values)\<close> and \<open>Math.max(...values)\<close> over a spread array.\<close>

fun math_min_list :: "real list \<Rightarrow> jsnum" where
  "math_min_list [] = PInf"
| "math_min_list (v # vs) = math_min (Fin v) (math_min_list vs)"

fun math_max_list :: "real list \<Rightarrow> jsnum" where
  "math_max_list [] = NInf"
| "math_max_list (v # vs) = math_max (Fin v) (math_max_list vs)"

text \<open>
  The operator \<open>%\<close> on integers: the remainder has the sign of the dividend, and
  a zero divisor gives \<open>NaN\<close> (here \<open>None\<close>).
\<close>

definition js_rem :: "int \<Rightarrow> int \<Rightarrow> int option" where
  "js_rem a b = (if b = 0 then None else Some (sgn a * (\<bar>a\<bar> mod \<bar>b\<bar>)))"

text \<open>The operator \<open>>\<close>: false as soon as one operand is \<open>NaN\<close>.\<close>

fun js_gt :: "jsnum \<Rightarrow> jsnum \<Rightarrow> bool" where
  "js_gt NaN _ = False"
| "js_gt _ NaN = False"
| "js_gt (Fin a) (Fin b) = (a > b)"
| "js_gt _ PInf = False"
| "js_gt NInf _ = False"
| "js_gt PInf _ = True"
| "js_gt (Fin a) NInf = True"

text \<open>A finite number, and a finite number closer than \<open>eps\<close> to \<open>c\<close>.\<close>

fun is_finite :: "jsnum \<Rightarrow> bool" where
  "is_finite (Fin p) = True"
| "is_finite PInf = False"
| "is_finite NInf = False"
| "is_finite NaN = False"

fun near :: "jsnum \<Rightarrow> real \<Rightarrow> real \<Rightarrow> bool" where
  "near (Fin p) c eps = (\<bar>p - c\<bar> < eps)"
| "near PInf c eps = False"
| "near NInf c eps = False"
| "near NaN c eps = False"

text \<open>
  Number formatting is a service of the runtime, not code of the repository: the
  methods \<open>toFixed\<close> and the conversion of a number to a string are parameters.
\<close>

record js_runtime =
  toFixed :: "jsnum \<Rightarrow> nat \<Rightarrow> string"
  toString :: "jsnum \<Rightarrow> string"


section \<open>The API service\<close>

text \<open>
  The module \<open>services/api\<close> is not part of the sources; the components only call it.
  A call either throws (an \<open>Error\<close> object with a message, or any other value) or
  resolves with data. The service is a parameter of every operation below, and the
  calls that \<open>fetchComparison\<close> makes are returned as a trace.
\<close>

datatype thrown = ErrorObj string | OtherValue

record NDVIData =
  average_ndvi :: real
  ndvi_trend :: string
  vegetation_coverage_percent :: real

record GlacierData =
  glacier_area_km2 :: real
  glacier_trend :: string
  retreat_rate_m_per_year :: "real option"

record UrbanData =
  urban_area_km2 :: real
  urban_trend :: string
  built_up_percentage :: real

record TemperatureData =
  average_temperature_c :: real
  temperature_trend :: string

record comparison_result =
  baseline_year :: int
  comparison_year :: int
  baseline_value :: real
  comparison_value :: real
  change_amount :: real
  change_percentage :: jsnum
  trend_summary :: string

record api_service =
  getTemporalComparison ::
    "string \<Rightarrow> string \<Rightarrow> int \<Rightarrow> int \<Rightarrow> bool \<Rightarrow> thrown + comparison_result list option"
  getNDVIData :: "int \<Rightarrow> string \<Rightarrow> thrown + NDVIData"
  getGlacierData :: "int \<Rightarrow> string \<Rightarrow> thrown + GlacierData"
  getUrbanData :: "int \<Rightarrow> string \<Rightarrow> thrown + UrbanData"
  getTemperatureData :: "int \<Rightarrow> string \<Rightarrow> thrown + TemperatureData"

datatype api_call =
    TemporalComparisonCall string string int int bool
  | NDVICall int string


section \<open>ComparisonTool: \<open>fetchComparison\<close>\<close>

text \<open>
  The state of the component: the baseline year \<open>comparisonYear\<close>, the region, the
  stored result (\<open>None\<close> is \<open>null\<close>), the loading flag and the error message.
  The current year is a property passed by the parent.
\<close>

record comparison_tool =
  comparisonYear :: int
  selectedRegion :: string
  results :: "comparison_result option"
  loading :: bool
  error :: "string option"

text \<open>
  The object \<open>comparisonResults\<close> that the fallback builds from the two readings. The
  percentage is a quotient of the runtime: were it taken with a baseline of zero, it
  would be an infinity or \<open>NaN\<close>.
\<close>

definition comparisonResults ::
  "js_runtime \<Rightarrow> int \<Rightarrow> int \<Rightarrow> NDVIData \<Rightarrow> NDVIData \<Rightarrow> comparison_result" where
  "comparisonResults rt baseYear currentYear baseline latest =
     (let changeAmount = average_ndvi latest - average_ndvi baseline;
          changePct = (if average_ndvi baseline \<noteq> 0
                       then js_mul (js_div (Fin changeAmount) (Fin (average_ndvi baseline)))
                              (Fin 100)
                       else Fin 0)
      in \<lparr> baseline_year = baseYear,
           comparison_year = currentYear,
           baseline_value = average_ndvi baseline,
           comparison_value = average_ndvi latest,
           change_amount = changeAmount,
           change_percentage = changePct,
           trend_summary =
             ''Vegetation Index changed by '' @ (if js_gt changePct (Fin 0) then ''+'' else [])
             @ toFixed rt changePct 2 @ ''% over ''
             @ toString rt (Fin (of_int (currentYear - baseYear))) @ '' years'' \<rparr>)"

text \<open>The outer \<open>catch\<close> block followed by \<open>finally\<close>.\<close>

definition comparison_failed :: "comparison_tool \<Rightarrow> comparison_tool" where
  "comparison_failed st =
     st\<lparr> error := Some (''Unable to fetch comparison data for '' @ selectedRegion st
                         @ ''. Please try another region.''),
         results := None,
         loading := False \<rparr>"

text \<open>The fallback: two sequential fetches, the second only after the first resolved.\<close>

definition fallback ::
  "js_runtime \<Rightarrow> api_service \<Rightarrow> int \<Rightarrow> comparison_tool \<Rightarrow> api_call list
     \<Rightarrow> comparison_tool \<times> api_call list" where
  "fallback rt api currentYear st calls =
     (case getNDVIData api (comparisonYear st) (selectedRegion st) of
        Inl e \<Rightarrow>
          (comparison_failed st, calls @ [NDVICall (comparisonYear st) (selectedRegion st)])
      | Inr baseline \<Rightarrow>
          (case getNDVIData api currentYear (selectedRegion st) of
             Inl e \<Rightarrow>
               (comparison_failed st,
                calls @ [NDVICall (comparisonYear st) (selectedRegion st),
                         NDVICall currentYear (selectedRegion st)])
           | Inr latest \<Rightarrow>
               (st\<lparr> results :=
                       Some (comparisonResults rt (comparisonYear st) currentYear baseline latest),
                    loading := False \<rparr>,
                calls @ [NDVICall (comparisonYear st) (selectedRegion st),
                         NDVICall currentYear (selectedRegion st)])))"

text \<open>
  \<open>fetchComparison\<close>: the guard on the years, then the primary call; its first element is
  stored when the answer is a non-empty sequence, and every other outcome (a throw,
  \<open>null\<close>, an empty sequence) continues with the fallback.
\<close>

definition fetchComparison ::
  "js_runtime \<Rightarrow> api_service \<Rightarrow> int \<Rightarrow> comparison_tool \<Rightarrow> comparison_tool \<times> api_call list" where
  "fetchComparison rt api currentYear st =
     (if comparisonYear st \<ge> currentYear then (st\<lparr> results := None \<rparr>, [])
      else
        let st1 = st\<lparr> loading := True, error := None \<rparr>;
            primary = TemporalComparisonCall ''ndvi'' (selectedRegion st) (comparisonYear st)
                        currentYear False
        in (case getTemporalComparison api ''ndvi'' (selectedRegion st) (comparisonYear st)
                   currentYear False of
              Inl primaryErr \<Rightarrow> fallback rt api currentYear st1 [primary]
            | Inr None \<Rightarrow> fallback rt api currentYear st1 [primary]
            | Inr (Some []) \<Rightarrow> fallback rt api currentYear st1 [primary]
            | Inr (Some (d # ds)) \<Rightarrow> (st1\<lparr> results := Some d, loading := False \<rparr>, [primary])))"

text \<open>The outcomes of the primary call that the claims call "failed or returned empty".\<close>

fun primary_unavailable :: "thrown + comparison_result list option \<Rightarrow> bool" where
  "primary_unavailable (Inl e) = True"
| "primary_unavailable (Inr None) = True"
| "primary_unavailable (Inr (Some [])) = True"
| "primary_unavailable (Inr (Some (d # ds))) = False"


section \<open>StorytellingModal: \<open>nextSlide\<close> and \<open>prevSlide\<close>\<close>

text \<open>
  The bundled stories of \<open>data/stories\<close>, by their \<open>id\<close>; navigation only uses the
  length of the list. The two updaters take the list as an argument and map the previous
  slide index to the next one.
\<close>

definition stories :: "string list" where
  "stories = [''imja-tsho'', ''kathmandu-urban'', ''gorkha-earthquake'',
              ''terai-forestry'', ''rara-lake'']"

definition nextSlide :: "'a list \<Rightarrow> int \<Rightarrow> int option" where
  "nextSlide ss prev = js_rem (prev + 1) (int (length ss))"

definition prevSlide :: "'a list \<Rightarrow> int \<Rightarrow> int option" where
  "prevSlide ss prev = js_rem (prev - 1 + int (length ss)) (int (length ss))"


section \<open>ImageComparisonSlider: \<open>handleMove\<close>\<close>

text \<open>
  The bounding rectangle of the container, with the two fields that \<open>handleMove\<close>
  reads. The container is \<open>None\<close> while \<open>containerRef.current\<close> is \<open>null\<close>; then the
  handler returns without touching the position.
\<close>

record DOMRect =
  rect_left :: real
  rect_width :: real

definition initialSliderPosition :: jsnum where
  "initialSliderPosition = Fin 50"

definition handleMove :: "DOMRect option \<Rightarrow> real \<Rightarrow> jsnum \<Rightarrow> jsnum" where
  "handleMove container clientX sliderPosition =
     (case container of
        None \<Rightarrow> sliderPosition
      | Some rect \<Rightarrow>
          let x = js_sub (Fin clientX) (Fin (rect_left rect));
              percentage = js_mul (js_div x (Fin (rect_width rect))) (Fin 100)
          in math_min (math_max percentage (Fin 0)) (Fin 100))"

text \<open>A number between 0 and 100; \<open>NaN\<close> and the infinities are not.\<close>

fun within_0_100 :: "jsnum \<Rightarrow> bool" where
  "within_0_100 (Fin p) = (0 \<le> p \<and> p \<le> 100)"
| "within_0_100 PInf = False"
| "within_0_100 NInf = False"
| "within_0_100 NaN = False"


section \<open>TrendChart: the chart points\<close>

text \<open>
  A data point as the interface \<open>DataPoint\<close> declares it. An optional coordinate
  \<open>x?: number\<close> is a key that the object does not have, a key whose value is
  \<open>undefined\<close>, or a key with a number.
\<close>

datatype coordinate = Absent | Undefined | Num jsnum

record DataPoint =
  dp_year :: int
  dp_value :: real
  dp_trend :: "string option"
  dp_x :: coordinate
  dp_y :: coordinate

definition minVal :: "DataPoint list \<Rightarrow> jsnum" where
  "minVal data = js_mul (math_min_list (map dp_value data)) (Fin (9 / 10))"

definition maxVal :: "DataPoint list \<Rightarrow> jsnum" where
  "maxVal data = js_mul (math_max_list (map dp_value data)) (Fin (11 / 10))"

text \<open>The coordinates computed for the point \<open>d\<close> at index \<open>i\<close>.\<close>

definition point_x :: "DataPoint list \<Rightarrow> nat \<Rightarrow> jsnum" where
  "point_x data i =
     js_mul (js_div (Fin (real i)) (js_sub (Fin (real (length data))) (Fin 1))) (Fin 100)"

definition point_y :: "DataPoint list \<Rightarrow> DataPoint \<Rightarrow> jsnum" where
  "point_y data d =
     js_sub (Fin 100)
       (js_mul (js_div (js_sub (Fin (dp_value d)) (minVal data))
                       (js_sub (maxVal data) (minVal data)))
               (Fin 100))"

text \<open>
  The object \<open>{ x, y, ...d }\<close>: the spread comes last, so a key \<open>x\<close> or \<open>y\<close> that
  the data point already has replaces the computed coordinate, also when its value is
  \<open>undefined\<close>.
\<close>

definition spread_point :: "jsnum \<Rightarrow> jsnum \<Rightarrow> DataPoint \<Rightarrow> DataPoint" where
  "spread_point cx cy d =
     d\<lparr> dp_x := (case dp_x d of Absent \<Rightarrow> Num cx
                 | Undefined \<Rightarrow> Undefined
                 | Num own \<Rightarrow> Num own),
        dp_y := (case dp_y d of Absent \<Rightarrow> Num cy
                 | Undefined \<Rightarrow> Undefined
                 | Num own \<Rightarrow> Num own) \<rparr>"

text \<open>A chart point inside the viewport: both coordinates are numbers from 0 to 100.\<close>

definition in_viewport :: "DataPoint \<Rightarrow> bool" where
  "in_viewport p =
     ((case dp_x p of Num qx \<Rightarrow> within_0_100 qx | Absent \<Rightarrow> False | Undefined \<Rightarrow> False)
      \<and> (case dp_y p of Num qy \<Rightarrow> within_0_100 qy | Absent \<Rightarrow> False
          | Undefined \<Rightarrow> False))"

definition points :: "DataPoint list \<Rightarrow> DataPoint list" where
  "points data =
     (if length data = 0 then []
      else map (\<lambda>(i, d). spread_point (point_x data i) (point_y data d) d)
               (zip [0 ..< length data] data))"


section \<open>EnvironmentalDashboard: \<open>fetchEnvironmentalData\<close>\<close>

record Indicator =
  ind_id :: string
  ind_name :: string
  ind_icon :: string
  ind_color :: string
  ind_description :: string
  ind_unit :: string
  ind_value :: real
  ind_trend :: string
  ind_status :: string
  ind_details :: string
  ind_isLoading :: "bool option"
  ind_error :: "string option"

text \<open>
  The \<open>switch\<close> on the indicator's id: the call it makes and the three variables
  \<open>value\<close>, \<open>trend\<close> and \<open>status\<close> it assigns (\<open>None\<close> is \<open>undefined\<close>: no case of
  the switch matched). A throw of the call leaves the \<open>try\<close> block.
\<close>

definition fetch_values ::
  "js_runtime \<Rightarrow> api_service \<Rightarrow> int \<Rightarrow> string
     \<Rightarrow> thrown + (real option \<times> string option \<times> string option)" where
  "fetch_values rt api currentYear ident =
     (if ident = ''ndvi'' then
        (case getNDVIData api currentYear ''nepal_himalayas'' of
           Inl err \<Rightarrow> Inl err
         | Inr data \<Rightarrow>
             Inr (Some (average_ndvi data),
                  Some ((if ndvi_trend data = ''increasing'' then ''+''
                         else if ndvi_trend data = ''decreasing'' then ''-'' else [])
                        @ toFixed rt (Fin (vegetation_coverage_percent data)) 1 @ ''%''),
                  Some (ndvi_trend data)))
      else if ident = ''glacier'' then
        (case getGlacierData api currentYear ''nepal_himalayas'' of
           Inl err \<Rightarrow> Inl err
         | Inr data \<Rightarrow>
             Inr (Some (glacier_area_km2 data),
                  Some ((if glacier_trend data = ''decreasing'' then ''-''
                         else if glacier_trend data = ''increasing'' then ''+'' else [])
                        @ toString rt
                            (Fin (case retreat_rate_m_per_year data of
                                    None \<Rightarrow> 25
                                  | Some r \<Rightarrow> if r = 0 then 25 else r))
                        @ '' km/y''),
                  Some (glacier_trend data)))
      else if ident = ''urban'' then
        (case getUrbanData api currentYear ''nepal_himalayas'' of
           Inl err \<Rightarrow> Inl err
         | Inr data \<Rightarrow>
             Inr (Some (urban_area_km2 data),
                  Some ((if urban_trend data = ''expanding'' then ''+''
                         else if urban_trend data = ''contracting'' then ''-'' else [])
                        @ toFixed rt (Fin (built_up_percentage data)) 1 @ ''%''),
                  Some (urban_trend data)))
      else if ident = ''temperature'' then
        (case getTemperatureData api currentYear ''nepal_himalayas'' of
           Inl err \<Rightarrow> Inl err
         | Inr data \<Rightarrow>
             Inr (Some (average_temperature_c data),
                  Some ((if temperature_trend data = ''warming'' then ''+''
                         else if temperature_trend data = ''cooling'' then ''-'' else [])
                        @ (if temperature_trend data = ''warming''
                           then ''1.8'' @ [CHR 0xB0] @ ''C''
                           else if temperature_trend data = ''cooling''
                           then ''1.2'' @ [CHR 0xB0] @ ''C''
                           else ''stable'')),
                  Some (temperature_trend data)))
      else Inr (None, None, None))"

text \<open>\<open>s || 'stable'\<close> on a string that may be \<open>undefined\<close> or empty.\<close>

definition or_stable :: "string option \<Rightarrow> string" where
  "or_stable s = (case s of None \<Rightarrow> ''stable'' | Some t \<Rightarrow> if t = [] then ''stable'' else t)"

text \<open>
  The callback that \<open>indicators.map\<close> runs for one indicator. The object is first marked
  as loading in place; the object returned is a copy of it with some fields replaced, by
  the \<open>try\<close> block when the call resolved and by the \<open>catch\<close> block when it threw.
\<close>

definition fetchIndicator :: "js_runtime \<Rightarrow> api_service \<Rightarrow> int \<Rightarrow> Indicator \<Rightarrow> Indicator" where
  "fetchIndicator rt api currentYear indicator0 =
     (let indicator = indicator0\<lparr> ind_isLoading := Some True \<rparr>
      in case fetch_values rt api currentYear (ind_id indicator) of
           Inr (val, trend, status) \<Rightarrow>
             indicator\<lparr> ind_value := (case val of Some v \<Rightarrow> v | None \<Rightarrow> 0),
                        ind_trend := or_stable trend,
                        ind_status := or_stable status,
                        ind_isLoading := Some False,
                        ind_error := None \<rparr>
         | Inl err \<Rightarrow>
             indicator\<lparr> ind_isLoading := Some False,
                        ind_error :=
                          Some (''API Error: ''
                                @ (case err of ErrorObj message \<Rightarrow> message
                                   | OtherValue \<Rightarrow> ''Failed to fetch data'')) \<rparr>)"

text \<open>\<open>Promise.all\<close> over the callbacks: the new list of indicators, slot by slot.\<close>

definition fetchEnvironmentalData ::
  "js_runtime \<Rightarrow> api_service \<Rightarrow> int \<Rightarrow> Indicator list \<Rightarrow> Indicator list" where
  "fetchEnvironmentalData rt api currentYear indicators =
     map (fetchIndicator rt api currentYear) indicators"


section \<open>Concrete runtimes, services and states\<close>

definition plain_runtime :: js_runtime where
  "plain_runtime = \<lparr> toFixed = (\<lambda>v digits. ''#''), toString = (\<lambda>v. ''#'') \<rparr>"

text \<open>A service whose every call throws a network error.\<close>

definition api_offline :: api_service where
  "api_offline =
     \<lparr> getTemporalComparison = (\<lambda>indicator region y0 y1 flag. Inl (ErrorObj ''Network Error'')),
       getNDVIData = (\<lambda>year region. Inl (ErrorObj ''Network Error'')),
       getGlacierData = (\<lambda>year region. Inl (ErrorObj ''Network Error'')),
       getUrbanData = (\<lambda>year region. Inl (ErrorObj ''Network Error'')),
       getTemperatureData = (\<lambda>year region. Inl (ErrorObj ''Network Error'')) \<rparr>"

text \<open>A service without the combined endpoint: NDVI 0.48 up to 2010 and 0.61 afterwards.\<close>

definition ndvi_reading :: "int \<Rightarrow> NDVIData" where
  "ndvi_reading year =
     \<lparr> average_ndvi = (if year \<le> 2010 then 48 / 100 else 61 / 100),
       ndvi_trend = ''increasing'',
       vegetation_coverage_percent = 65 \<rparr>"

definition api_ndvi_only :: api_service where
  "api_ndvi_only = api_offline\<lparr> getNDVIData := (\<lambda>year region. Inr (ndvi_reading year)) \<rparr>"

text \<open>A service whose NDVI reading is always zero, and whose combined answer is empty.\<close>

definition api_bare_ground :: api_service where
  "api_bare_ground =
     api_offline\<lparr> getTemporalComparison := (\<lambda>indicator region y0 y1 flag. Inr (Some [])),
                  getNDVIData := (\<lambda>year region.
                     Inr \<lparr> average_ndvi = 0, ndvi_trend = ''stable'',
                           vegetation_coverage_percent = 0 \<rparr>) \<rparr>"

text \<open>A service whose combined endpoint answers with the two years exchanged.\<close>

definition exchanged_result :: comparison_result where
  "exchanged_result =
     \<lparr> baseline_year = 2020, comparison_year = 2010,
       baseline_value = 61 / 100, comparison_value = 48 / 100,
       change_amount = - (13 / 100), change_percentage = Fin (- (1300 / 61)),
       trend_summary = ''Vegetation Index changed by -21.31% over -10 years'' \<rparr>"

definition api_exchanged :: api_service where
  "api_exchanged =
     api_offline\<lparr> getTemporalComparison :=
                    (\<lambda>indicator region y0 y1 flag. Inr (Some [exchanged_result])) \<rparr>"

text \<open>The component as it is mounted, and the same component showing an earlier result.\<close>

definition mounted_tool :: comparison_tool where
  "mounted_tool =
     \<lparr> comparisonYear = 2010, selectedRegion = ''nepal_himalayas'',
       results = None, loading = False, error = None \<rparr>"

definition earlier_result :: comparison_result where
  "earlier_result =
     \<lparr> baseline_year = 2010, comparison_year = 2015,
       baseline_value = 48 / 100, comparison_value = 54 / 100,
       change_amount = 6 / 100, change_percentage = Fin (25 / 2),
       trend_summary = ''Vegetation Index changed by +12.50% over 5 years'' \<rparr>"

definition showing_tool :: comparison_tool where
  "showing_tool = mounted_tool\<lparr> results := Some earlier_result \<rparr>"

text \<open>The first card of the dashboard, after a successful load.\<close>

definition ndvi_card :: Indicator where
  "ndvi_card =
     \<lparr> ind_id = ''ndvi'', ind_name = ''Vegetation Index'', ind_icon = ''FaLeaf'',
       ind_color = ''green'', ind_description = ''Normalized Difference Vegetation Index'',
       ind_unit = ''NDVI'', ind_value = 61 / 100, ind_trend = ''+65.0%'',
       ind_status = ''increasing'',
       ind_details = ''Measures plant health and density using satellite imagery'',
       ind_isLoading = Some False, ind_error = None \<rparr>"

text \<open>Three yearly readings for the chart.\<close>

definition reading :: "int \<Rightarrow> real \<Rightarrow> DataPoint" where
  "reading year v =
     \<lparr> dp_year = year, dp_value = v, dp_trend = None, dp_x = Absent, dp_y = Absent \<rparr>"

definition three_readings :: "DataPoint list" where
  "three_readings = [reading 2000 10, reading 2005 20, reading 2010 15]"

text \<open>Two readings, the first with coordinates of its own.\<close>

definition placed_readings :: "DataPoint list" where
  "placed_readings =
     [(reading 2000 10)\<lparr> dp_x := Num (Fin 500), dp_y := Num (Fin (- 40)) \<rparr>,
      reading 2005 20]"


section \<open>Properties of the number operations\<close>

lemma js_rem_nonneg:
  "0 \<le> a \<Longrightarrow> 0 < b \<Longrightarrow> js_rem a b = Some (a mod b)"
  by (cases "a = 0") (simp_all add: js_rem_def)

lemma math_min_list_Min:
  "vs \<noteq> [] \<Longrightarrow> math_min_list vs = Fin (Min (set vs))"
proof (induction vs)
  case Nil
  then show ?case by simp
next
  case (Cons v vs)
  show ?case
  proof (cases "vs = []")
    case True
    then show ?thesis by simp
  next
    case False
    with Cons.IH have "math_min_list vs = Fin (Min (set vs))" by simp
    with False show ?thesis by simp
  qed
qed

lemma math_max_list_Max:
  "vs \<noteq> [] \<Longrightarrow> math_max_list vs = Fin (Max (set vs))"
proof (induction vs)
  case Nil
  then show ?case by simp
next
  case (Cons v vs)
  show ?case
  proof (cases "vs = []")
    case True
    then show ?thesis by simp
  next
    case False
    with Cons.IH have "math_max_list vs = Fin (Max (set vs))" by simp
    with False show ?thesis by simp
  qed
qed

lemma percent_bounds:
  fixes r :: real
  assumes "0 \<le> r" and "r \<le> 1"
  shows "0 \<le> r * 100" and "r * 100 \<le> 100"
    and "0 \<le> 100 - r * 100" and "100 - r * 100 \<le> 100"
  using assms by simp_all


section \<open>The paths through \<open>fetchComparison\<close>\<close>

lemma fetchComparison_guard:
  "currentYear \<le> comparisonYear st \<Longrightarrow>
     fetchComparison rt api currentYear st = (st\<lparr> results := None \<rparr>, [])"
  by (simp add: fetchComparison_def)

lemma fetchComparison_fallback:
  assumes "comparisonYear st < currentYear"
    and "primary_unavailable
           (getTemporalComparison api ''ndvi'' (selectedRegion st) (comparisonYear st)
              currentYear False)"
  shows "fetchComparison rt api currentYear st =
           fallback rt api currentYear (st\<lparr> loading := True, error := None \<rparr>)
             [TemporalComparisonCall ''ndvi'' (selectedRegion st) (comparisonYear st)
                currentYear False]"
  using assms
  by (auto simp: fetchComparison_def Let_def split: sum.splits option.splits list.splits)

lemma fetchComparison_primary:
  assumes "comparisonYear st < currentYear"
    and "getTemporalComparison api ''ndvi'' (selectedRegion st) (comparisonYear st)
              currentYear False = Inr (Some (d # ds))"
  shows "fetchComparison rt api currentYear st =
           (st\<lparr> loading := False, error := None, results := Some d \<rparr>,
             [TemporalComparisonCall ''ndvi'' (selectedRegion st) (comparisonYear st)
                currentYear False])"
  using assms
  by (simp add: fetchComparison_def Let_def)

lemma fallback_both_resolved:
  assumes "getNDVIData api (comparisonYear st) (selectedRegion st) = Inr baseline"
    and "getNDVIData api currentYear (selectedRegion st) = Inr latest"
  shows "fallback rt api currentYear st calls =
           (st\<lparr> results := Some (comparisonResults rt (comparisonYear st) currentYear
                                    baseline latest),
                loading := False \<rparr>,
            calls @ [NDVICall (comparisonYear st) (selectedRegion st),
                     NDVICall currentYear (selectedRegion st)])"
  using assms by (simp add: fallback_def)

lemma fallback_baseline_threw:
  assumes "getNDVIData api (comparisonYear st) (selectedRegion st) = Inl e"
  shows "fallback rt api currentYear st calls =
           (comparison_failed st, calls @ [NDVICall (comparisonYear st) (selectedRegion st)])"
  using assms by (simp add: fallback_def)

lemma fallback_latest_threw:
  assumes "getNDVIData api (comparisonYear st) (selectedRegion st) = Inr baseline"
    and "getNDVIData api currentYear (selectedRegion st) = Inl e"
  shows "fallback rt api currentYear st calls =
           (comparison_failed st,
            calls @ [NDVICall (comparisonYear st) (selectedRegion st),
                     NDVICall currentYear (selectedRegion st)])"
  using assms by (simp add: fallback_def)

text \<open>The concrete services and states, evaluated once for the examples below.\<close>

lemma mounted_tool_before_2020: "comparisonYear mounted_tool < 2020"
  by (simp add: mounted_tool_def)

lemma showing_tool_before_2020: "comparisonYear showing_tool < 2020"
  by (simp add: showing_tool_def mounted_tool_def)

lemma api_ndvi_only_primary:
  "primary_unavailable (getTemporalComparison api_ndvi_only ''ndvi'' region y0 y1 flag)"
  by (simp add: api_ndvi_only_def api_offline_def)

lemma api_ndvi_only_reading:
  "getNDVIData api_ndvi_only year region = Inr (ndvi_reading year)"
  by (simp add: api_ndvi_only_def)

lemma api_offline_primary:
  "primary_unavailable (getTemporalComparison api_offline ''ndvi'' region y0 y1 flag)"
  by (simp add: api_offline_def)

lemma api_offline_reading:
  "getNDVIData api_offline year region = Inl (ErrorObj ''Network Error'')"
  by (simp add: api_offline_def)


text \<open>
  Claim C1. When the fallback path runs (the years pass the guard, the primary call
  threw or returned nothing usable, and both yearly fetches resolved), the stored result
  holds the two fetched average NDVI values, its change amount is the current value minus
  the baseline value, and for a non-zero baseline value its change percentage is the
  change amount divided by the baseline value, times 100.
\<close>

theorem fallback_change_formulas:
  assumes "comparisonYear st < currentYear"
    and "primary_unavailable
           (getTemporalComparison api ''ndvi'' (selectedRegion st) (comparisonYear st)
              currentYear False)"
    and "getNDVIData api (comparisonYear st) (selectedRegion st) = Inr baseline"
    and "getNDVIData api currentYear (selectedRegion st) = Inr latest"
  shows "\<exists>r. results (fst (fetchComparison rt api currentYear st)) = Some r
             \<and> baseline_value r = average_ndvi baseline
             \<and> comparison_value r = average_ndvi latest
             \<and> change_amount r = comparison_value r - baseline_value r
             \<and> (baseline_value r \<noteq> 0 \<longrightarrow>
                  change_percentage r = Fin ((change_amount r / baseline_value r) * 100))"
  using assms
  by (simp add: fetchComparison_fallback fallback_both_resolved comparisonResults_def Let_def)

theorem fallback_change_formulas_witness:
  "\<exists>r. results (fst (fetchComparison plain_runtime api_ndvi_only 2020 mounted_tool)) = Some r
       \<and> baseline_value r = 48 / 100
       \<and> comparison_value r = 61 / 100
       \<and> change_amount r = 13 / 100
       \<and> change_percentage r = Fin (1300 / 48)"
proof -
  from fallback_change_formulas
         [OF mounted_tool_before_2020 api_ndvi_only_primary
             api_ndvi_only_reading api_ndvi_only_reading, of plain_runtime]
  obtain r
    where r: "results (fst (fetchComparison plain_runtime api_ndvi_only 2020 mounted_tool))
                = Some r"
    and bv: "baseline_value r = average_ndvi (ndvi_reading (comparisonYear mounted_tool))"
    and cv: "comparison_value r = average_ndvi (ndvi_reading 2020)"
    and ca: "change_amount r = comparison_value r - baseline_value r"
    and cp: "baseline_value r \<noteq> 0 \<longrightarrow>
               change_percentage r = Fin ((change_amount r / baseline_value r) * 100)"
    by blast
  have bv': "baseline_value r = 48 / 100"
    using bv by (simp add: ndvi_reading_def mounted_tool_def)
  have cv': "comparison_value r = 61 / 100"
    using cv by (simp add: ndvi_reading_def)
  have ca': "change_amount r = 13 / 100"
    using ca by (simp add: bv' cv')
  have cp': "change_percentage r = Fin (1300 / 48)"
    using cp by (simp add: bv' ca')
  from r bv' cv' ca' cp' show ?thesis by blast
qed


text \<open>
  A quotient by zero is never a finite number, whatever the dividend.
\<close>

lemma quotient_by_zero_not_finite:
  "\<not> is_finite (js_mul (js_div (Fin a) (Fin 0)) (Fin 100))"
  by (simp add: inf_of_sign_def)

text \<open>
  Claim C2. In every fallback comparison whose fetched baseline value is 0, the change
  percentage of the stored result is exactly the number 0, and the call ends normally:
  a result is stored and no error message is set, so the \<open>catch\<close> block did not run.
  The dividing branch was not taken: the quotient of the change amount by the baseline
  value, times 100, is not a finite number there, while the stored percentage is.
\<close>

theorem zero_baseline_percentage:
  assumes "comparisonYear st < currentYear"
    and "primary_unavailable
           (getTemporalComparison api ''ndvi'' (selectedRegion st) (comparisonYear st)
              currentYear False)"
    and "getNDVIData api (comparisonYear st) (selectedRegion st) = Inr baseline"
    and "getNDVIData api currentYear (selectedRegion st) = Inr latest"
    and "average_ndvi baseline = 0"
  shows "(\<exists>r. results (fst (fetchComparison rt api currentYear st)) = Some r
              \<and> baseline_value r = 0 \<and> change_percentage r = Fin 0
              \<and> is_finite (change_percentage r)
              \<and> \<not> is_finite (js_mul (js_div (Fin (change_amount r)) (Fin (baseline_value r)))
                                (Fin 100)))
       \<and> error (fst (fetchComparison rt api currentYear st)) = None"
proof -
  let ?r = "comparisonResults rt (comparisonYear st) currentYear baseline latest"
  have stored: "results (fst (fetchComparison rt api currentYear st)) = Some ?r"
    using assms(1-4) by (simp add: fetchComparison_fallback fallback_both_resolved)
  have no_error: "error (fst (fetchComparison rt api currentYear st)) = None"
    using assms(1-4) by (simp add: fetchComparison_fallback fallback_both_resolved)
  have bv: "baseline_value ?r = 0"
    using assms(5) by (simp add: comparisonResults_def Let_def)
  have cp: "change_percentage ?r = Fin 0"
    using assms(5) by (simp add: comparisonResults_def Let_def)
  have fin: "is_finite (change_percentage ?r)"
    unfolding cp by simp
  have quot: "\<not> is_finite (js_mul (js_div (Fin (change_amount ?r)) (Fin (baseline_value ?r)))
                            (Fin 100))"
    unfolding bv by (rule quotient_by_zero_not_finite)
  from stored bv cp fin quot no_error show ?thesis
    by blast
qed

theorem zero_baseline_percentage_witness:
  "(\<exists>r. results (fst (fetchComparison plain_runtime api_bare_ground 2020 mounted_tool)) = Some r
        \<and> baseline_value r = 0 \<and> change_percentage r = Fin 0)
   \<and> error (fst (fetchComparison plain_runtime api_bare_ground 2020 mounted_tool)) = None"
proof -
  let ?zero = "\<lparr> average_ndvi = 0, ndvi_trend = ''stable'', vegetation_coverage_percent = 0 \<rparr>"
  have p: "primary_unavailable
             (getTemporalComparison api_bare_ground ''ndvi'' (selectedRegion mounted_tool)
                (comparisonYear mounted_tool) 2020 False)"
    by (simp add: api_bare_ground_def)
  have b: "getNDVIData api_bare_ground (comparisonYear mounted_tool)
             (selectedRegion mounted_tool) = Inr ?zero"
    by (simp add: api_bare_ground_def)
  have l: "getNDVIData api_bare_ground 2020 (selectedRegion mounted_tool) = Inr ?zero"
    by (simp add: api_bare_ground_def)
  have z: "average_ndvi ?zero = 0"
    by simp
  from zero_baseline_percentage [OF mounted_tool_before_2020 p b l z, of plain_runtime]
  show ?thesis by blast
qed


text \<open>
  Claim C3 ends with: every result ever stored has its baseline year before its
  comparison year. The element taken from the primary answer is stored as the service
  returned it, without a look at its years: an answer with the two years exchanged is
  stored unchanged.
\<close>

theorem primary_years_exchanged:
  "results (fst (fetchComparison plain_runtime api_exchanged 2020 mounted_tool))
     = Some exchanged_result
   \<and> \<not> baseline_year exchanged_result < comparison_year exchanged_result"
  by (simp add: fetchComparison_def Let_def api_exchanged_def api_offline_def mounted_tool_def
        exchanged_result_def)

text \<open>
  Claim C3, amended. When the current year is not after the baseline year,
  \<open>fetchComparison\<close> makes no call and sets the stored result to \<open>null\<close>. A result is
  only stored by a call whose baseline year is before its current year, and a result
  built by the fallback carries exactly these two years, so its baseline year is before
  its comparison year.
\<close>

theorem stored_years_ordered:
  "(currentYear \<le> comparisonYear st \<longrightarrow>
      fetchComparison rt api currentYear st = (st\<lparr> results := None \<rparr>, []))
   \<and> (results (fst (fetchComparison rt api currentYear st)) = Some r \<longrightarrow>
        comparisonYear st < currentYear)
   \<and> (primary_unavailable
        (getTemporalComparison api ''ndvi'' (selectedRegion st) (comparisonYear st)
           currentYear False) \<longrightarrow>
      results (fst (fetchComparison rt api currentYear st)) = Some r \<longrightarrow>
        baseline_year r = comparisonYear st \<and> comparison_year r = currentYear
        \<and> baseline_year r < comparison_year r)"
proof (intro conjI)
  show "currentYear \<le> comparisonYear st \<longrightarrow>
     fetchComparison rt api currentYear st = (st\<lparr> results := None \<rparr>, [])"
    by (simp add: fetchComparison_guard)
  show "results (fst (fetchComparison rt api currentYear st)) = Some r \<longrightarrow>
     comparisonYear st < currentYear"
    by (cases "currentYear \<le> comparisonYear st") (simp_all add: fetchComparison_guard)
  show "primary_unavailable
     (getTemporalComparison api ''ndvi'' (selectedRegion st) (comparisonYear st)
        currentYear False) \<longrightarrow>
   results (fst (fetchComparison rt api currentYear st)) = Some r \<longrightarrow>
     baseline_year r = comparisonYear st \<and> comparison_year r = currentYear
     \<and> baseline_year r < comparison_year r"
  proof (cases "currentYear \<le> comparisonYear st")
    case True
    then show ?thesis by (simp add: fetchComparison_guard)
  next
    case False
    then have y: "comparisonYear st < currentYear" by simp
    show ?thesis
      using y
      by (auto simp: fetchComparison_fallback fallback_def comparison_failed_def
            comparisonResults_def Let_def split: sum.splits)
  qed
qed

theorem stored_years_ordered_witness:
  "fetchComparison plain_runtime api_ndvi_only 2010 mounted_tool
     = (mounted_tool\<lparr> results := None \<rparr>, [])
   \<and> results (fst (fetchComparison plain_runtime api_ndvi_only 2020 mounted_tool))
       = Some (comparisonResults plain_runtime 2010 2020 (ndvi_reading 2010) (ndvi_reading 2020))
   \<and> baseline_year
        (comparisonResults plain_runtime 2010 2020 (ndvi_reading 2010) (ndvi_reading 2020))
       < comparison_year
          (comparisonResults plain_runtime 2010 2020 (ndvi_reading 2010) (ndvi_reading 2020))"
proof -
  let ?r = "comparisonResults plain_runtime 2010 2020 (ndvi_reading 2010) (ndvi_reading 2020)"
  have g: "(2010::int) \<le> comparisonYear mounted_tool"
    by (simp add: mounted_tool_def)
  have s: "results (fst (fetchComparison plain_runtime api_ndvi_only 2020 mounted_tool))
             = Some ?r"
    by (simp add: fetchComparison_def fallback_def Let_def api_ndvi_only_def api_offline_def
          mounted_tool_def)
  from stored_years_ordered
         [where st = mounted_tool and currentYear = 2010 and rt = plain_runtime
            and api = api_ndvi_only and r = ?r] g
  have a: "fetchComparison plain_runtime api_ndvi_only 2010 mounted_tool
             = (mounted_tool\<lparr> results := None \<rparr>, [])"
    by blast
  from stored_years_ordered
         [where st = mounted_tool and currentYear = 2020 and rt = plain_runtime
            and api = api_ndvi_only and r = ?r] api_ndvi_only_primary s
  have b: "baseline_year ?r < comparison_year ?r"
    by blast
  from a s b show ?thesis by blast
qed


text \<open>
  Claim C4. If the primary call throws or returns nothing usable, \<open>fetchComparison\<close>
  fetches the baseline-year reading and then the current-year reading, and, both having
  resolved, stores a result that is not \<open>null\<close>: the one built from the two readings.
  No error message is set and loading is over.
\<close>

theorem fallback_stores_result:
  assumes "comparisonYear st < currentYear"
    and "primary_unavailable
           (getTemporalComparison api ''ndvi'' (selectedRegion st) (comparisonYear st)
              currentYear False)"
    and "getNDVIData api (comparisonYear st) (selectedRegion st) = Inr baseline"
    and "getNDVIData api currentYear (selectedRegion st) = Inr latest"
  shows "results (fst (fetchComparison rt api currentYear st)) \<noteq> None
       \<and> results (fst (fetchComparison rt api currentYear st)) =
           Some (comparisonResults rt (comparisonYear st) currentYear baseline latest)
       \<and> snd (fetchComparison rt api currentYear st) =
           [TemporalComparisonCall ''ndvi'' (selectedRegion st) (comparisonYear st)
              currentYear False,
            NDVICall (comparisonYear st) (selectedRegion st),
            NDVICall currentYear (selectedRegion st)]
       \<and> error (fst (fetchComparison rt api currentYear st)) = None
       \<and> loading (fst (fetchComparison rt api currentYear st)) = False"
  using assms
  by (simp add: fetchComparison_fallback fallback_both_resolved)

theorem fallback_stores_result_witness:
  "results (fst (fetchComparison plain_runtime api_ndvi_only 2020 mounted_tool)) \<noteq> None
   \<and> snd (fetchComparison plain_runtime api_ndvi_only 2020 mounted_tool) =
       [TemporalComparisonCall ''ndvi'' ''nepal_himalayas'' 2010 2020 False,
        NDVICall 2010 ''nepal_himalayas'', NDVICall 2020 ''nepal_himalayas'']"
proof -
  from fallback_stores_result
         [OF mounted_tool_before_2020 api_ndvi_only_primary
             api_ndvi_only_reading api_ndvi_only_reading, of plain_runtime]
  show ?thesis by (simp add: mounted_tool_def)
qed


text \<open>
  Claim C5 says that the result stored earlier stays next to the error message. The
  \<open>catch\<close> block sets the result to \<open>null\<close>: the component showing an earlier
  result ends with the error message set and no result.
\<close>

theorem earlier_result_discarded:
  "results showing_tool = Some earlier_result
   \<and> results (fst (fetchComparison plain_runtime api_offline 2020 showing_tool)) = None
   \<and> error (fst (fetchComparison plain_runtime api_offline 2020 showing_tool)) =
       Some ''Unable to fetch comparison data for nepal_himalayas. Please try another region.''"
  by (simp add: fetchComparison_def Let_def fallback_def comparison_failed_def api_offline_def
        showing_tool_def mounted_tool_def)

text \<open>
  Claim C5, amended. When the primary call throws or returns nothing usable and one of
  the two fallback fetches throws, a short message naming the region is set as the error,
  the stored result is set to \<open>null\<close>, and loading is over.
\<close>

theorem both_paths_failed:
  assumes "comparisonYear st < currentYear"
    and "primary_unavailable
           (getTemporalComparison api ''ndvi'' (selectedRegion st) (comparisonYear st)
              currentYear False)"
    and "getNDVIData api (comparisonYear st) (selectedRegion st) = Inl e
         \<or> (getNDVIData api (comparisonYear st) (selectedRegion st) = Inr baseline
            \<and> getNDVIData api currentYear (selectedRegion st) = Inl e)"
  shows "error (fst (fetchComparison rt api currentYear st)) =
           Some (''Unable to fetch comparison data for '' @ selectedRegion st
                 @ ''. Please try another region.'')
       \<and> results (fst (fetchComparison rt api currentYear st)) = None
       \<and> loading (fst (fetchComparison rt api currentYear st)) = False"
  using assms
  by (auto simp: fetchComparison_fallback fallback_baseline_threw fallback_latest_threw
        comparison_failed_def)

theorem both_paths_failed_witness:
  "error (fst (fetchComparison plain_runtime api_offline 2020 showing_tool)) =
     Some (''Unable to fetch comparison data for '' @ ''nepal_himalayas''
           @ ''. Please try another region.'')
   \<and> results (fst (fetchComparison plain_runtime api_offline 2020 showing_tool)) = None
   \<and> loading (fst (fetchComparison plain_runtime api_offline 2020 showing_tool)) = False"
proof -
  have f: "getNDVIData api_offline (comparisonYear showing_tool) (selectedRegion showing_tool)
             = Inl (ErrorObj ''Network Error'')
           \<or> (getNDVIData api_offline (comparisonYear showing_tool)
                 (selectedRegion showing_tool) = Inr (ndvi_reading 2010)
              \<and> getNDVIData api_offline 2020 (selectedRegion showing_tool)
                  = Inl (ErrorObj ''Network Error''))"
    by (simp add: api_offline_reading)
  have region: "selectedRegion showing_tool = ''nepal_himalayas''"
    by (simp add: showing_tool_def mounted_tool_def)
  from both_paths_failed [OF showing_tool_before_2020 api_offline_primary f, of plain_runtime]
  show ?thesis unfolding region .
qed


text \<open>
  Claim C6. In the fallback computation a baseline value of 0.48 and a current value of
  0.61 give the change amount 0.13 and the change percentage (13/48) times 100, which
  is within half a hundredth of 27.08; so does the whole call on a service with these
  two readings.
\<close>

theorem ndvi_048_to_061:
  "change_amount (comparisonResults rt baseYear currentYear
      (baseline\<lparr> average_ndvi := 48 / 100 \<rparr>) (latest\<lparr> average_ndvi := 61 / 100 \<rparr>)) = 13 / 100
   \<and> change_percentage (comparisonResults rt baseYear currentYear
      (baseline\<lparr> average_ndvi := 48 / 100 \<rparr>) (latest\<lparr> average_ndvi := 61 / 100 \<rparr>))
       = Fin ((13 / 48) * 100)
   \<and> near (change_percentage (comparisonResults rt baseYear currentYear
      (baseline\<lparr> average_ndvi := 48 / 100 \<rparr>) (latest\<lparr> average_ndvi := 61 / 100 \<rparr>)))
       (2708 / 100) (1 / 200)
   \<and> map_option change_amount
       (results (fst (fetchComparison plain_runtime api_ndvi_only 2020 mounted_tool)))
       = Some (13 / 100)
   \<and> map_option change_percentage
       (results (fst (fetchComparison plain_runtime api_ndvi_only 2020 mounted_tool)))
       = Some (Fin ((13 / 48) * 100))"
  by (simp add: comparisonResults_def Let_def fetchComparison_def fallback_def
        api_ndvi_only_def api_offline_def mounted_tool_def ndvi_reading_def)


section \<open>Story navigation\<close>

text \<open>
  Claim C7. Story navigation is cyclic modulo the number of stories: from every index
  \<open>i\<close> with \<open>0 \<le> i < length\<close>, \<open>nextSlide\<close> moves to \<open>(i + 1) mod length\<close> and
  \<open>prevSlide\<close> to \<open>(i - 1 + length) mod length\<close>; advancing from the last index gives 0
  and retreating from 0 gives the last index.
\<close>

theorem slide_navigation_cyclic:
  assumes "0 \<le> i" and "i < int (length ss)"
  shows "nextSlide ss i = Some ((i + 1) mod int (length ss))
       \<and> prevSlide ss i = Some ((i - 1 + int (length ss)) mod int (length ss))
       \<and> nextSlide ss (int (length ss) - 1) = Some 0
       \<and> prevSlide ss 0 = Some (int (length ss) - 1)"
proof -
  let ?n = "int (length ss)"
  have pos: "0 < ?n" using assms by linarith
  have a: "nextSlide ss i = Some ((i + 1) mod ?n)"
    unfolding nextSlide_def using assms pos by (intro js_rem_nonneg) simp_all
  have b: "prevSlide ss i = Some ((i - 1 + ?n) mod ?n)"
    unfolding prevSlide_def using assms pos by (intro js_rem_nonneg) simp_all
  have "nextSlide ss (?n - 1) = Some ((?n - 1 + 1) mod ?n)"
    unfolding nextSlide_def using pos by (intro js_rem_nonneg) simp_all
  then have c: "nextSlide ss (?n - 1) = Some 0"
    by simp
  have e: "(0::int) - 1 + ?n = ?n - 1"
    by simp
  have "prevSlide ss 0 = Some ((?n - 1) mod ?n)"
    unfolding prevSlide_def e using pos by (intro js_rem_nonneg) simp_all
  moreover have "(?n - 1) mod ?n = ?n - 1"
    using pos by (intro mod_pos_pos_trivial) simp_all
  ultimately have d: "prevSlide ss 0 = Some (?n - 1)"
    by (simp only:)
  from a b c d show ?thesis by blast
qed

theorem slide_navigation_cyclic_witness:
  "nextSlide stories 4 = Some 0 \<and> prevSlide stories 4 = Some 3
   \<and> nextSlide stories 0 = Some 1 \<and> prevSlide stories 0 = Some 4"
proof -
  have n: "int (length stories) = 5"
    by (simp add: stories_def)
  have a: "(0::int) \<le> 4" and b: "(4::int) < int (length stories)"
    and c: "(0::int) \<le> 0" and d: "(0::int) < int (length stories)"
    by (simp_all add: n)
  from slide_navigation_cyclic [OF a b] slide_navigation_cyclic [OF c d]
  show ?thesis by (simp add: n)
qed


section \<open>The image comparison slider\<close>

lemma handleMove_unmounted:
  "handleMove None clientX sliderPosition = sliderPosition"
  by (simp add: handleMove_def)

lemma initialSliderPosition_within: "within_0_100 initialSliderPosition"
  by (simp add: initialSliderPosition_def)

text \<open>
  Over a container of non-zero width the new position is the relative percentage of the
  pointer, clamped; over a container of width zero it is still 0 or 100 unless the
  pointer is exactly at the left edge.
\<close>

lemma handleMove_clamped:
  assumes "rect_width rect \<noteq> 0"
  shows "handleMove (Some rect) clientX sliderPosition =
           Fin (min (max (((clientX - rect_left rect) / rect_width rect) * 100) 0) 100)"
    and "within_0_100 (handleMove (Some rect) clientX sliderPosition)"
  using assms by (simp_all add: handleMove_def Let_def)

lemma handleMove_zero_width_off_edge:
  assumes "rect_width rect = 0" and "clientX \<noteq> rect_left rect"
  shows "within_0_100 (handleMove (Some rect) clientX sliderPosition)"
  using assms by (simp add: handleMove_def Let_def inf_of_sign_def)

text \<open>
  Claim C8 says that the slider position always lies between 0 and 100. On a container
  whose bounding rectangle has width 0, a pointer at its left edge gives the quotient
  0 / 0, and neither \<open>Math.max\<close> nor \<open>Math.min\<close> replaces \<open>NaN\<close>: the position set is
  \<open>NaN\<close>, which is not between 0 and 100.
\<close>

theorem handleMove_zero_width_at_edge:
  "handleMove (Some \<lparr> rect_left = 0, rect_width = 0 \<rparr>) 0 initialSliderPosition = NaN
   \<and> \<not> within_0_100 (handleMove (Some \<lparr> rect_left = 0, rect_width = 0 \<rparr>) 0
                       initialSliderPosition)"
  by (simp add: handleMove_def Let_def inf_of_sign_def)


section \<open>The environmental dashboard\<close>

lemma fetch_values_threw:
  assumes "(ident = ''ndvi'' \<and> getNDVIData api y ''nepal_himalayas'' = Inl err)
         \<or> (ident = ''glacier'' \<and> getGlacierData api y ''nepal_himalayas'' = Inl err)
         \<or> (ident = ''urban'' \<and> getUrbanData api y ''nepal_himalayas'' = Inl err)
         \<or> (ident = ''temperature''
              \<and> getTemperatureData api y ''nepal_himalayas'' = Inl err)"
  shows "fetch_values rt api y ident = Inl err"
  using assms
proof (elim disjE conjE)
  assume "ident = ''ndvi''" "getNDVIData api y ''nepal_himalayas'' = Inl err"
  then show ?thesis by (simp add: fetch_values_def)
next
  assume "ident = ''glacier''" "getGlacierData api y ''nepal_himalayas'' = Inl err"
  then show ?thesis by (simp add: fetch_values_def)
next
  assume "ident = ''urban''" "getUrbanData api y ''nepal_himalayas'' = Inl err"
  then show ?thesis by (simp add: fetch_values_def)
next
  assume "ident = ''temperature''" "getTemperatureData api y ''nepal_himalayas'' = Inl err"
  then show ?thesis by (simp add: fetch_values_def)
qed

lemma fetchIndicator_threw:
  assumes "fetch_values rt api y (ind_id ind) = Inl err"
  shows "fetchIndicator rt api y ind =
           ind\<lparr> ind_isLoading := Some False,
                ind_error := Some (''API Error: ''
                   @ (case err of ErrorObj message \<Rightarrow> message
                      | OtherValue \<Rightarrow> ''Failed to fetch data'')) \<rparr>"
  unfolding fetchIndicator_def Let_def by (simp add: assms)

lemma fetchEnvironmentalData_nth:
  "j < length indicators \<Longrightarrow>
     fetchEnvironmentalData rt api y indicators ! j = fetchIndicator rt api y (indicators ! j)"
  by (simp add: fetchEnvironmentalData_def)

lemma length_fetchEnvironmentalData:
  "length (fetchEnvironmentalData rt api y indicators) = length indicators"
  by (simp add: fetchEnvironmentalData_def)

text \<open>
  Claim C9. When the call for the indicator in slot \<open>i\<close> throws, the indicator returned
  for that slot is the previous one with \<open>isLoading\<close> set to false and \<open>error\<close> set to
  a message: its value, trend, status, unit and every other field are unchanged. The
  list keeps its length, and every other slot holds what the callback returns for that
  slot's own indicator.
\<close>

theorem failed_fetch_keeps_indicator:
  assumes "i < length indicators"
    and "(ind_id (indicators ! i) = ''ndvi''
            \<and> getNDVIData api y ''nepal_himalayas'' = Inl err)
         \<or> (ind_id (indicators ! i) = ''glacier''
            \<and> getGlacierData api y ''nepal_himalayas'' = Inl err)
         \<or> (ind_id (indicators ! i) = ''urban''
            \<and> getUrbanData api y ''nepal_himalayas'' = Inl err)
         \<or> (ind_id (indicators ! i) = ''temperature''
            \<and> getTemperatureData api y ''nepal_himalayas'' = Inl err)"
  shows "fetchEnvironmentalData rt api y indicators ! i =
           (indicators ! i)\<lparr> ind_isLoading := Some False,
                ind_error := Some (''API Error: ''
                   @ (case err of ErrorObj message \<Rightarrow> message
                      | OtherValue \<Rightarrow> ''Failed to fetch data'')) \<rparr>
       \<and> ind_value (fetchEnvironmentalData rt api y indicators ! i) = ind_value (indicators ! i)
       \<and> ind_trend (fetchEnvironmentalData rt api y indicators ! i) = ind_trend (indicators ! i)
       \<and> ind_status (fetchEnvironmentalData rt api y indicators ! i)
           = ind_status (indicators ! i)
       \<and> ind_unit (fetchEnvironmentalData rt api y indicators ! i) = ind_unit (indicators ! i)
       \<and> ind_isLoading (fetchEnvironmentalData rt api y indicators ! i) = Some False
       \<and> ind_error (fetchEnvironmentalData rt api y indicators ! i) \<noteq> None
       \<and> length (fetchEnvironmentalData rt api y indicators) = length indicators
       \<and> (\<forall>j < length indicators. j \<noteq> i \<longrightarrow>
             fetchEnvironmentalData rt api y indicators ! j
               = fetchIndicator rt api y (indicators ! j))"
proof -
  have threw: "fetch_values rt api y (ind_id (indicators ! i)) = Inl err"
    using assms(2) by (rule fetch_values_threw)
  have eq: "fetchEnvironmentalData rt api y indicators ! i =
           (indicators ! i)\<lparr> ind_isLoading := Some False,
                ind_error := Some (''API Error: ''
                   @ (case err of ErrorObj message \<Rightarrow> message
                      | OtherValue \<Rightarrow> ''Failed to fetch data'')) \<rparr>"
    unfolding fetchEnvironmentalData_nth [OF assms(1)] using threw by (rule fetchIndicator_threw)
  show ?thesis
    unfolding eq by (simp add: length_fetchEnvironmentalData fetchEnvironmentalData_nth)
qed

theorem failed_fetch_keeps_indicator_witness:
  "fetchEnvironmentalData plain_runtime api_offline 2020 [ndvi_card] ! 0 =
     ndvi_card\<lparr> ind_isLoading := Some False, ind_error := Some ''API Error: Network Error'' \<rparr>
   \<and> ind_value (fetchEnvironmentalData plain_runtime api_offline 2020 [ndvi_card] ! 0) = 61 / 100
   \<and> ind_trend (fetchEnvironmentalData plain_runtime api_offline 2020 [ndvi_card] ! 0)
       = ''+65.0%''"
proof -
  have i: "0 < length [ndvi_card]"
    by simp
  have f: "(ind_id ([ndvi_card] ! 0) = ''ndvi''
            \<and> getNDVIData api_offline 2020 ''nepal_himalayas'' = Inl (ErrorObj ''Network Error''))
         \<or> (ind_id ([ndvi_card] ! 0) = ''glacier''
            \<and> getGlacierData api_offline 2020 ''nepal_himalayas''
                = Inl (ErrorObj ''Network Error''))
         \<or> (ind_id ([ndvi_card] ! 0) = ''urban''
            \<and> getUrbanData api_offline 2020 ''nepal_himalayas''
                = Inl (ErrorObj ''Network Error''))
         \<or> (ind_id ([ndvi_card] ! 0) = ''temperature''
            \<and> getTemperatureData api_offline 2020 ''nepal_himalayas''
                = Inl (ErrorObj ''Network Error''))"
    by (simp add: ndvi_card_def api_offline_def)
  from failed_fetch_keeps_indicator [OF i f, of plain_runtime]
  show ?thesis by (simp add: ndvi_card_def)
qed


section \<open>The trend chart\<close>

lemma point_x_scaled:
  assumes "2 \<le> length data" and "i < length data"
  shows "point_x data i = Fin ((real i / (real (length data) - 1)) * 100)"
    and "0 \<le> (real i / (real (length data) - 1)) * 100"
    and "(real i / (real (length data) - 1)) * 100 \<le> 100"
proof -
  have n: "real (length data) - 1 > 0"
    using assms(1) by simp
  then show "point_x data i = Fin ((real i / (real (length data) - 1)) * 100)"
    by (simp add: point_x_def)
  have r0: "0 \<le> real i / (real (length data) - 1)"
    using n by simp
  have "real i \<le> real (length data) - 1"
    using assms(2) by linarith
  then have r1: "real i / (real (length data) - 1) \<le> 1"
    using n by (simp add: divide_le_eq)
  show "0 \<le> (real i / (real (length data) - 1)) * 100"
    using r0 r1 by (rule percent_bounds(1))
  show "(real i / (real (length data) - 1)) * 100 \<le> 100"
    using r0 r1 by (rule percent_bounds(2))
qed

lemma point_y_scaled:
  assumes "data \<noteq> []" and "\<forall>d \<in> set data. 0 < dp_value d" and "d \<in> set data"
  defines "lo \<equiv> Min (set (map dp_value data)) * (9 / 10)"
    and "hi \<equiv> Max (set (map dp_value data)) * (11 / 10)"
  shows "point_y data d = Fin (100 - ((dp_value d - lo) / (hi - lo)) * 100)"
    and "0 \<le> 100 - ((dp_value d - lo) / (hi - lo)) * 100"
    and "100 - ((dp_value d - lo) / (hi - lo)) * 100 \<le> 100"
proof -
  let ?vs = "map dp_value data"
  have ne: "?vs \<noteq> []" using assms(1) by simp
  have fin: "finite (set ?vs)" "set ?vs \<noteq> {}" using ne by simp_all
  have mem: "dp_value d \<in> set ?vs" using assms(3) by simp
  have allpos: "\<forall>v \<in> set ?vs. 0 < v" using assms(2) by simp
  have m_pos: "0 < Min (set ?vs)"
    using fin allpos by (simp add: Min_gr_iff)
  have m_le: "Min (set ?vs) \<le> dp_value d"
    using fin(1) mem by (rule Min_le)
  have le_M: "dp_value d \<le> Max (set ?vs)"
    using fin(1) mem by (rule Max_ge)
  have lo_lt: "lo < dp_value d"
    unfolding lo_def using m_pos m_le by linarith
  have lt_hi: "dp_value d < hi"
    unfolding hi_def using m_pos m_le le_M by linarith
  have span: "0 < hi - lo"
    using lo_lt lt_hi by linarith
  have mn: "minVal data = Fin lo"
    by (simp add: minVal_def lo_def math_min_list_Min [OF ne])
  have mx: "maxVal data = Fin hi"
    by (simp add: maxVal_def hi_def math_max_list_Max [OF ne])
  show "point_y data d = Fin (100 - ((dp_value d - lo) / (hi - lo)) * 100)"
    using span by (simp add: point_y_def mn mx)
  have r0: "0 \<le> (dp_value d - lo) / (hi - lo)"
    using span lo_lt by simp
  have r1: "(dp_value d - lo) / (hi - lo) \<le> 1"
    using span lt_hi by (simp add: divide_le_eq)
  show "0 \<le> 100 - ((dp_value d - lo) / (hi - lo)) * 100"
    using r0 r1 by (rule percent_bounds(3))
  show "100 - ((dp_value d - lo) / (hi - lo)) * 100 \<le> 100"
    using r0 r1 by (rule percent_bounds(4))
qed

lemma points_nth:
  assumes "i < length data"
  shows "points data ! i = spread_point (point_x data i) (point_y data (data ! i)) (data ! i)"
  using assms by (cases "data = []") (simp_all add: points_def)

lemma length_points: "length (points data) = length data"
  by (simp add: points_def)

text \<open>
  The coordinates computed for a list of at least two data points with strictly positive
  values are numbers from 0 to 100, whatever keys the data points have.
\<close>

lemma computed_coordinates_within:
  assumes "2 \<le> length data" and "\<forall>d \<in> set data. 0 < dp_value d" and "i < length data"
  shows "within_0_100 (point_x data i)" and "within_0_100 (point_y data (data ! i))"
proof -
  have ne: "data \<noteq> []" using assms(1) by auto
  have mem: "data ! i \<in> set data" using assms(3) by simp
  note x = point_x_scaled [OF assms(1) assms(3)]
  note y = point_y_scaled [OF ne assms(2) mem]
  show "within_0_100 (point_x data i)"
    unfolding x(1) using x(2) x(3) by simp
  show "within_0_100 (point_y data (data ! i))"
    unfolding y(1) using y(2) y(3) by simp
qed

text \<open>
  Claim C10 says that for at least two data points with strictly positive values every
  chart point lies in the viewport. A data point may bring keys \<open>x\<close> and \<open>y\<close> of its
  own, and the spread puts them over the computed coordinates: of two readings with
  positive values, the first placed at (500, -40), the first chart point is at
  (500, -40), outside the viewport.
\<close>

theorem placed_point_outside_viewport:
  "2 \<le> length placed_readings
   \<and> 0 < dp_value (placed_readings ! 0) \<and> 0 < dp_value (placed_readings ! 1)
   \<and> dp_x (points placed_readings ! 0) = Num (Fin 500)
   \<and> dp_y (points placed_readings ! 0) = Num (Fin (- 40))
   \<and> \<not> in_viewport (points placed_readings ! 0)"
  by (simp add: placed_readings_def reading_def points_def spread_point_def in_viewport_def)

text \<open>
  Claim C10, amended. For a list of at least two data points whose values are all
  strictly positive, every chart point built from a data point without keys \<open>x\<close> and
  \<open>y\<close> of its own lies in the viewport: its x is \<open>(i / (length - 1)) * 100\<close> and its y
  is \<open>100 - ((value - minVal) / (maxVal - minVal)) * 100\<close>, with
  \<open>minVal = min * 0.9\<close> and \<open>maxVal = max * 1.1\<close>, and both are numbers from 0 to 100.
\<close>

theorem chart_points_in_viewport:
  assumes "2 \<le> length data" and "\<forall>d \<in> set data. 0 < dp_value d" and "i < length data"
    and "dp_x (data ! i) = Absent" and "dp_y (data ! i) = Absent"
  shows "in_viewport (points data ! i)
       \<and> dp_x (points data ! i) = Num (Fin ((real i / (real (length data) - 1)) * 100))
       \<and> dp_y (points data ! i) =
           Num (Fin (100 - ((dp_value (data ! i) - Min (set (map dp_value data)) * (9 / 10))
                            / (Max (set (map dp_value data)) * (11 / 10)
                               - Min (set (map dp_value data)) * (9 / 10))) * 100))
       \<and> within_0_100 (Fin ((real i / (real (length data) - 1)) * 100))
       \<and> within_0_100
           (Fin (100 - ((dp_value (data ! i) - Min (set (map dp_value data)) * (9 / 10))
                        / (Max (set (map dp_value data)) * (11 / 10)
                           - Min (set (map dp_value data)) * (9 / 10))) * 100))"
proof -
  have ne: "data \<noteq> []" using assms(1) by auto
  have mem: "data ! i \<in> set data" using assms(3) by simp
  note x = point_x_scaled [OF assms(1) assms(3)]
  note y = point_y_scaled [OF ne assms(2) mem]
  note w = computed_coordinates_within [OF assms(1) assms(2) assms(3)]
  have p: "points data ! i = spread_point (point_x data i) (point_y data (data ! i)) (data ! i)"
    using assms(3) by (rule points_nth)
  have px: "dp_x (points data ! i) = Num (point_x data i)"
    unfolding p by (simp add: spread_point_def assms(4))
  have py: "dp_y (points data ! i) = Num (point_y data (data ! i))"
    unfolding p by (simp add: spread_point_def assms(5))
  have v: "in_viewport (points data ! i)"
    unfolding in_viewport_def px py using w by simp
  have ex: "dp_x (points data ! i) = Num (Fin ((real i / (real (length data) - 1)) * 100))"
    unfolding px x(1) by (rule refl)
  have ey: "dp_y (points data ! i) =
           Num (Fin (100 - ((dp_value (data ! i) - Min (set (map dp_value data)) * (9 / 10))
                            / (Max (set (map dp_value data)) * (11 / 10)
                               - Min (set (map dp_value data)) * (9 / 10))) * 100))"
    unfolding py y(1) by (rule refl)
  have wx: "within_0_100 (Fin ((real i / (real (length data) - 1)) * 100))"
    using w(1) unfolding x(1) .
  have wy: "within_0_100
           (Fin (100 - ((dp_value (data ! i) - Min (set (map dp_value data)) * (9 / 10))
                        / (Max (set (map dp_value data)) * (11 / 10)
                           - Min (set (map dp_value data)) * (9 / 10))) * 100))"
    using w(2) unfolding y(1) .
  show ?thesis
    by (intro conjI) (rule v ex ey wx wy)+
qed

theorem chart_points_in_viewport_witness:
  "in_viewport (points three_readings ! 1)
   \<and> dp_x (points three_readings ! 1) = Num (Fin 50)
   \<and> dp_y (points three_readings ! 1) = Num (Fin (200 / 13))"
proof -
  have a: "2 \<le> length three_readings"
    by (simp add: three_readings_def)
  have b: "\<forall>d \<in> set three_readings. 0 < dp_value d"
    by (simp add: three_readings_def reading_def)
  have c: "1 < length three_readings"
    by (simp add: three_readings_def)
  have nx: "dp_x (three_readings ! 1) = Absent"
    by (simp add: three_readings_def reading_def)
  have ny: "dp_y (three_readings ! 1) = Absent"
    by (simp add: three_readings_def reading_def)
  note t = chart_points_in_viewport [OF a b c nx ny]
  have v: "in_viewport (points three_readings ! 1)"
    using t by blast
  have dx: "dp_x (points three_readings ! 1)
              = Num (Fin ((real 1 / (real (length three_readings) - 1)) * 100))"
    using t by blast
  have dy: "dp_y (points three_readings ! 1) =
           Num (Fin (100 - ((dp_value (three_readings ! 1)
                              - Min (set (map dp_value three_readings)) * (9 / 10))
                            / (Max (set (map dp_value three_readings)) * (11 / 10)
                               - Min (set (map dp_value three_readings)) * (9 / 10))) * 100))"
    using t by blast
  have ex: "(real 1 / (real (length three_readings) - 1)) * 100 = 50"
    by (simp add: three_readings_def)
  have ey: "100 - ((dp_value (three_readings ! 1)
                     - Min (set (map dp_value three_readings)) * (9 / 10))
                   / (Max (set (map dp_value three_readings)) * (11 / 10)
                      - Min (set (map dp_value three_readings)) * (9 / 10))) * 100 = 200 / 13"
    by (simp add: three_readings_def reading_def)
  from v dx dy show ?thesis
    unfolding ex ey by blast
qed

end
